theory Spec2Isabelle
  imports Complex_Main
begin

section \<open>Data model\<close>

text \<open>
  The normalized Pokemon record built by \<^verbatim>\<open>getCharacters\<close> and
  \<^verbatim>\<open>getSingleCharacter\<close> and handed to the combat view:
  \<^verbatim>\<open>{ id, name, attack, type, image }\<close>. The fields \<^verbatim>\<open>id\<close> and
  \<^verbatim>\<open>image\<close> carry a prime because HOL already has constants of these names.
  \<^verbatim>\<open>attack\<close> is the integer \<^verbatim>\<open>base_stat\<close> of the catalogue.
\<close>

record fighter =
  id' :: int
  name :: string
  attack :: int
  type :: string
  image' :: string

text \<open>
  An element of \<^verbatim>\<open>fighterStates\<close>: the spread \<^verbatim>\<open>{ ...fighter, isAttacking, isHit }\<close>.
\<close>

record fighterState = fighter +
  isAttacking :: bool
  isHit :: bool

section \<open>Move selection and formatting (component \<^verbatim>\<open>CombatResult\<close>)\<close>

text \<open>
  \<^verbatim>\<open>String.prototype.toUpperCase\<close> on one character. A \<^typ>\<open>char\<close> is a code unit
  below 256 (the Latin-1 range of a JavaScript string). The letters \<^verbatim>\<open>a\<close>..\<^verbatim>\<open>z\<close>
  (97..122) and the Latin-1 lowercase letters 224..254 other than the division sign 247
  move down by 32; every other code unit stays. Three code units have an uppercase form
  that is not one code unit below 256 (181, the micro sign; 223, the sharp s; 255, the
  y with diaeresis): strings that start with one of them, and strings with code units
  from 256 on, are outside this model.
\<close>

definition toUpperCase :: "char \<Rightarrow> char" where
  "toUpperCase c =
     (let n = (of_char c :: nat)
      in if (97 \<le> n \<and> n \<le> 122) \<or> (224 \<le> n \<and> n \<le> 254 \<and> n \<noteq> 247)
         then char_of (n - 32) else c)"

text \<open>
  \<^verbatim>\<open>const capitalizeFirst = (str) => str.charAt(0).toUpperCase() + str.slice(1);\<close>
  On the empty string both \<^verbatim>\<open>charAt(0)\<close> and \<^verbatim>\<open>slice(1)\<close> are empty.
\<close>

fun capitalizeFirst :: "string \<Rightarrow> string" where
  "capitalizeFirst [] = []"
| "capitalizeFirst (c # cs) = toUpperCase c # cs"



definition defaultMoves :: "string list" where
  "defaultMoves = [''Tackle'', ''Scratch'', ''Quick Attack'', ''Body Slam'']"

text \<open>The own properties of the object literal \<^verbatim>\<open>attackMoves\<close>, in source order.\<close>

definition attackMoves :: "(string \<times> string list) list" where
  "attackMoves =
     [(''fire'', [''Flamethrower'', ''Fire Blast'', ''Ember'', ''Fire Punch'']),
      (''water'', [''Water Gun'', ''Hydro Pump'', ''Bubble Beam'', ''Surf'']),
      (''grass'', [''Vine Whip'', ''Solar Beam'', ''Leaf Blade'', ''Petal Dance'']),
      (''electric'', [''Thunderbolt'', ''Thunder'', ''Thunder Shock'', ''Quick Attack'']),
      (''normal'', [''Tackle'', ''Body Slam'', ''Quick Attack'', ''Hyper Beam'']),
      (''default'', defaultMoves)]"

text \<open>
  \<^verbatim>\<open>attackMoves\<close> is an ordinary object, so the property read \<^verbatim>\<open>attackMoves[type]\<close>
  also finds what the object inherits from \<^verbatim>\<open>Object.prototype\<close>. These are the
  property names of \<^verbatim>\<open>Object.prototype\<close>; each of them is bound to a function, and
  \<^verbatim>\<open>__proto__\<close> to the prototype object itself, so each read is truthy.
\<close>

definition objectPrototypeKeys :: "string list" where
  "objectPrototypeKeys =
     [''constructor'', ''__defineGetter__'', ''__defineSetter__'', ''hasOwnProperty'',
      ''__lookupGetter__'', ''__lookupSetter__'', ''isPrototypeOf'',
      ''propertyIsEnumerable'', ''toString'', ''valueOf'', ''__proto__'',
      ''toLocaleString'']"

datatype property = Moves "string list" | Inherited | Undefined

text \<open>The property read \<^verbatim>\<open>attackMoves[type]\<close>: own properties first, then the prototype.\<close>

definition attackMovesGet :: "string \<Rightarrow> property" where
  "attackMovesGet key =
     (case map_of attackMoves key of
        Some moves \<Rightarrow> Moves moves
      | None \<Rightarrow> if key \<in> set objectPrototypeKeys then Inherited else Undefined)"

text \<open>
  An array read \<^verbatim>\<open>moves[i]\<close>: \<^verbatim>\<open>undefined\<close> (here \<^const>\<open>None\<close>) outside the array.
\<close>

definition arrayGet :: "'a list \<Rightarrow> int \<Rightarrow> 'a option" where
  "arrayGet xs i = (if 0 \<le> i \<and> i < int (length xs) then Some (xs ! nat i) else None)"

text \<open>
  \<^verbatim>\<open>
  const getRandomMove = (type) => {
    const moves = attackMoves[type] || attackMoves.default;
    return moves[Math.floor(Math.random() * moves.length)];
  };
  \<close>
  The value \<open>r\<close> is the value that the call of \<^verbatim>\<open>Math.random()\<close> returns. It is a
  double in \<open>[0, 1)\<close>; every table has four entries, and the product of a double with 4
  is exact, so the real product is the product the program computes. When the read
  finds an inherited member, \<^verbatim>\<open>moves\<close> is a function (or the prototype object), which
  has no property named by a number (nor by \<^verbatim>\<open>NaN\<close>): the result is
  \<^verbatim>\<open>undefined\<close>.
\<close>

definition getRandomMove :: "real \<Rightarrow> string \<Rightarrow> string option" where
  "getRandomMove r ty =
     (case (case attackMovesGet ty of Undefined \<Rightarrow> Moves defaultMoves | found \<Rightarrow> found) of
        Moves moves \<Rightarrow> arrayGet moves \<lfloor>r * real (length moves)\<rfloor>
      | _ \<Rightarrow> None)"

text \<open>
  The category labels that reach \<^verbatim>\<open>getRandomMove\<close>: \<^verbatim>\<open>type\<close> is only ever
  \<^verbatim>\<open>pokemon.types[0].type.name\<close> of a detail object, and these are the type names of
  the catalogue.
\<close>

definition catalogueTypes :: "string list" where
  "catalogueTypes =
     [''normal'', ''fighting'', ''flying'', ''poison'', ''ground'', ''rock'', ''bug'',
      ''ghost'', ''steel'', ''fire'', ''water'', ''grass'', ''electric'', ''psychic'',
      ''ice'', ''dragon'', ''dark'', ''fairy'', ''stellar'', ''unknown'', ''shadow'']"

text \<open>A value inside a template literal: \<^verbatim>\<open>undefined\<close> prints as its name.\<close>

fun template :: "string option \<Rightarrow> string" where
  "template (Some str) = str"
| "template None = ''undefined''"

text \<open>The log line \<^verbatim>\<open>`${capitalizeFirst(attackerPokemon.name)} uses ${move}!`\<close>.\<close>

definition attackLine :: "fighter \<Rightarrow> string option \<Rightarrow> string" where
  "attackLine attackerPokemon move =
     capitalizeFirst (name attackerPokemon) @ '' uses '' @ template move @ ''!''"

text \<open>The log line \<^verbatim>\<open>`${capitalizeFirst(combatWinner.name)} wins the battle!`\<close>.\<close>

definition winnerLine :: "fighter \<Rightarrow> string" where
  "winnerLine combatWinner = capitalizeFirst (name combatWinner) @ '' wins the battle!''"

section \<open>The combat sequencer\<close>

text \<open>
  The callbacks that the component hands to \<^verbatim>\<open>setTimeout\<close> and \<^verbatim>\<open>setInterval\<close>.
  \<open>CombatInterval attacker round\<close> is the interval callback of one call of
  \<^verbatim>\<open>simulateCombat\<close>, together with the two variables \<^verbatim>\<open>attacker\<close> and \<^verbatim>\<open>round\<close>
  of that call, which only this callback reads and writes.
\<close>

datatype callback =
    SimulateCombat
  | CombatInterval int int
  | ResetAnimations
  | DetermineWinner

text \<open>The five \<^verbatim>\<open>useState\<close> cells of the component.\<close>

record hooks =
  combatLog :: "string list"
  currentAttacker :: int
  combatFinished :: bool
  winner :: "fighter option"
  fighterStates :: "fighterState list"

text \<open>
  A mounted component on the event loop: its props, its state, whether it is still
  pristine (no state setter has been called since it mounted), the clock in
  milliseconds, the number of calls of \<^verbatim>\<open>Math.random()\<close> so far, and the pending
  timers in the order of their registration, each with the time at which it is due.
\<close>

record sys =
  fighters :: "fighter list"
  state :: hooks
  pristine :: bool
  now :: nat
  randomCalls :: nat
  timers :: "(nat \<times> callback) list"

definition maxRounds :: int where
  "maxRounds = 5"

text \<open>
  The state setters. Each gives the state that the next render shows, and from the
  first call of any of them the component is no longer pristine.
\<close>

definition setCombatLog :: "(string list \<Rightarrow> string list) \<Rightarrow> sys \<Rightarrow> sys" where
  "setCombatLog f s =
     s\<lparr>state := (state s)\<lparr>combatLog := f (combatLog (state s))\<rparr>, pristine := False\<rparr>"

definition setCurrentAttacker :: "int \<Rightarrow> sys \<Rightarrow> sys" where
  "setCurrentAttacker v s = s\<lparr>state := (state s)\<lparr>currentAttacker := v\<rparr>, pristine := False\<rparr>"

definition setCombatFinished :: "bool \<Rightarrow> sys \<Rightarrow> sys" where
  "setCombatFinished v s = s\<lparr>state := (state s)\<lparr>combatFinished := v\<rparr>, pristine := False\<rparr>"

definition setWinner :: "fighter option \<Rightarrow> sys \<Rightarrow> sys" where
  "setWinner v s = s\<lparr>state := (state s)\<lparr>winner := v\<rparr>, pristine := False\<rparr>"

definition setFighterStates :: "(fighterState list \<Rightarrow> fighterState list) \<Rightarrow> sys \<Rightarrow> sys" where
  "setFighterStates f s =
     s\<lparr>state := (state s)\<lparr>fighterStates := f (fighterStates (state s))\<rparr>, pristine := False\<rparr>"

text \<open>\<^verbatim>\<open>setTimeout(cb, delay)\<close>: the callback is due \<open>delay\<close> milliseconds from now.\<close>

definition setTimeout :: "callback \<Rightarrow> nat \<Rightarrow> sys \<Rightarrow> sys" where
  "setTimeout cb delay s = s\<lparr>timers := timers s @ [(now s + delay, cb)]\<rparr>"

text \<open>
  The initial value of \<^verbatim>\<open>fighterStates\<close>, which \<^verbatim>\<open>restartCombat\<close> writes again.
  The reads \<^verbatim>\<open>fighters[0]\<close> and \<^verbatim>\<open>fighters[1]\<close> happen only behind the length check
  of the component.
\<close>

definition freshFighterStates :: "fighter list \<Rightarrow> fighterState list" where
  "freshFighterStates fs =
     [fighter.extend (fs ! 0) \<lparr>isAttacking = False, isHit = False\<rparr>,
      fighter.extend (fs ! 1) \<lparr>isAttacking = False, isHit = False\<rparr>]"

definition initialHooks :: "fighter list \<Rightarrow> hooks" where
  "initialHooks fs =
     \<lparr>combatLog = [], currentAttacker = 0, combatFinished = False, winner = None,
      fighterStates = freshFighterStates fs\<rparr>"

text \<open>
  What the component renders: the advisory
  \<^verbatim>\<open><div>Please select two Pokemon.</div>\<close>, behind which no hook and no effect
  runs, or the arena with its state and timers. The component stays mounted: the cleanup
  of the effect, which cancels the start timeout on unmount, never runs here.
  \<^verbatim>\<open>
  if (fighters.length !== 2) return <div>Please select two Pokemon.</div>;
  ...
  useEffect(() => {
    const startCombat = setTimeout(() => { simulateCombat(); }, 1000);
    return () => clearTimeout(startCombat);
  }, []);
  \<close>
\<close>

datatype rendered = PleaseSelectTwo | CombatArena sys

definition CombatResult :: "fighter list \<Rightarrow> rendered" where
  "CombatResult fs =
     (if length fs \<noteq> 2 then PleaseSelectTwo
      else CombatArena
        (setTimeout SimulateCombat 1000
          \<lparr>fighters = fs, state = initialHooks fs, pristine = True, now = 0, randomCalls = 0,
           timers = []\<rparr>))"

text \<open>
  The body of each callback. \<open>rng k\<close> is the value of the \<open>k\<close>-th call of
  \<^verbatim>\<open>Math.random()\<close>.

  \<^verbatim>\<open>simulateCombat\<close> declares its variables and starts the interval:
  \<^verbatim>\<open>
  let attacker = 0;
  let round = 1;
  const maxRounds = 5;
  const combatInterval = setInterval(() => { ... }, 2500);
  \<close>
  The interval callback:
  \<^verbatim>\<open>
  const attackerPokemon = fighters[attacker];
  const defenderPokemon = fighters[1 - attacker];
  const move = getRandomMove(attackerPokemon.type);
  setFighterStates(prev => prev.map((fighter, index) => ({
    ...fighter, isAttacking: index === attacker, isHit: index === (1 - attacker) })));
  setCombatLog(prev => [...prev, `${capitalizeFirst(attackerPokemon.name)} uses ${move}!`]);
  setTimeout(() => { setFighterStates(prev => prev.map(fighter => ({
    ...fighter, isAttacking: false, isHit: false }))); }, 1000);
  if (round >= maxRounds) {
    clearInterval(combatInterval);
    setTimeout(() => { ... }, 1500);
  }
  attacker = 1 - attacker;
  round++;
  \<close>
  The updater handed to \<^verbatim>\<open>setFighterStates\<close> reads the variable \<^verbatim>\<open>attacker\<close> at the
  moment React runs it. React runs an updater at once, inside the call of the setter,
  only while the component is pristine, which is the case for the first firing of the
  interval after mounting; from then on it queues the updater and runs it when it
  renders, after the callback has returned, and by then \<^verbatim>\<open>attacker = 1 - attacker\<close>
  has run. The updater of \<^verbatim>\<open>setCombatLog\<close> reads only constants of its firing.

  An interval that was not cleared is due again one period (2500 ms) later, with the
  variables as the callback left them. \<^verbatim>\<open>attacker\<close> is 0 or 1 whenever the callback
  runs, so \<^verbatim>\<open>fighters[attacker]\<close> and \<^verbatim>\<open>fighters[1 - attacker]\<close> read inside the
  two-element array.

  The timeout that resolves the combat:
  \<^verbatim>\<open>
  const combatWinner = fighters[0].attack > fighters[1].attack ? fighters[0] : fighters[1];
  setWinner(combatWinner);
  setCombatFinished(true);
  setCombatLog(prev => [...prev, `${capitalizeFirst(combatWinner.name)} wins the battle!`]);
  \<close>
\<close>

fun runCallback :: "(nat \<Rightarrow> real) \<Rightarrow> callback \<Rightarrow> sys \<Rightarrow> sys" where
  "runCallback rng SimulateCombat s =
     s\<lparr>timers := timers s @ [(now s + 2500, CombatInterval 0 1)]\<rparr>"
| "runCallback rng (CombatInterval attacker round') s =
     (let attackerPokemon = fighters s ! nat attacker;
          defenderPokemon = fighters s ! nat (1 - attacker);
          move = getRandomMove (rng (randomCalls s)) (type attackerPokemon);
          s1 = s\<lparr>randomCalls := Suc (randomCalls s)\<rparr>;
          attackerInUpdater = (if pristine s then attacker else 1 - attacker);
          s2 = setFighterStates
                 (\<lambda>prev. map (\<lambda>(index, fighter).
                      fighter\<lparr>isAttacking := (int index = attackerInUpdater),
                              isHit := (int index = 1 - attackerInUpdater)\<rparr>)
                    (enumerate 0 prev)) s1;
          s3 = setCombatLog (\<lambda>prev. prev @ [attackLine attackerPokemon move]) s2;
          s4 = setTimeout ResetAnimations 1000 s3
      in if round' \<ge> maxRounds then setTimeout DetermineWinner 1500 s4
         else s4\<lparr>timers := timers s4 @ [(now s4 + 2500, CombatInterval (1 - attacker) (round' + 1))]\<rparr>)"
| "runCallback rng ResetAnimations s =
     setFighterStates (\<lambda>prev. map (\<lambda>fighter. fighter\<lparr>isAttacking := False, isHit := False\<rparr>) prev) s"
| "runCallback rng DetermineWinner s =
     (let combatWinner =
            (if attack (fighters s ! 0) > attack (fighters s ! 1)
             then fighters s ! 0 else fighters s ! 1)
      in setCombatLog (\<lambda>prev. prev @ [winnerLine combatWinner])
           (setCombatFinished True (setWinner (Some combatWinner) s)))"

text \<open>
  The timer that fires next: the one that is due first, and among timers due at the
  same time the one registered first.
\<close>

fun earliest :: "(nat \<times> callback) list \<Rightarrow> (nat \<times> callback) option" where
  "earliest [] = None"
| "earliest (t # ts) =
     (case earliest ts of
        None \<Rightarrow> Some t
      | Some u \<Rightarrow> if fst u < fst t then Some u else Some t)"

text \<open>
  One turn of the event loop: the clock moves to the next timer, the timer leaves the
  queue and its callback runs. With no timer pending nothing happens.
\<close>

definition step :: "(nat \<Rightarrow> real) \<Rightarrow> sys \<Rightarrow> sys" where
  "step rng s =
     (case earliest (timers s) of
        None \<Rightarrow> s
      | Some (due, cb) \<Rightarrow>
          runCallback rng cb
            (s\<lparr>now := max (now s) due, timers := remove1 (due, cb) (timers s)\<rparr>))"

fun steps :: "(nat \<Rightarrow> real) \<Rightarrow> nat \<Rightarrow> sys \<Rightarrow> sys" where
  "steps rng 0 s = s"
| "steps rng (Suc n) s = steps rng n (step rng s)"


text \<open>
  \<^verbatim>\<open>
  const restartCombat = () => {
    setCombatLog([]); setCurrentAttacker(0); setCombatFinished(false); setWinner(null);
    setFighterStates([
      { ...fighters[0], isAttacking: false, isHit: false },
      { ...fighters[1], isAttacking: false, isHit: false } ]);
    setTimeout(() => { simulateCombat(); }, 500);
  };
  \<close>
\<close>

definition restartCombat :: "sys \<Rightarrow> sys" where
  "restartCombat s =
     setTimeout SimulateCombat 500
       (setFighterStates (\<lambda>_. freshFighterStates (fighters s))
         (setWinner None
           (setCombatFinished False
             (setCurrentAttacker 0
               (setCombatLog (\<lambda>_. []) s)))))"

text \<open>The event loop under whatever is rendered: the advisory has no timer to fire.\<close>

fun advance :: "(nat \<Rightarrow> real) \<Rightarrow> nat \<Rightarrow> rendered \<Rightarrow> rendered" where
  "advance rng n PleaseSelectTwo = PleaseSelectTwo"
| "advance rng n (CombatArena s) = CombatArena (steps rng n s)"

text \<open>The log entries on display and the timers pending behind a rendered component.\<close>

fun logOf :: "rendered \<Rightarrow> string list" where
  "logOf PleaseSelectTwo = []"
| "logOf (CombatArena s) = combatLog (state s)"

fun timersOf :: "rendered \<Rightarrow> (nat \<times> callback) list" where
  "timersOf PleaseSelectTwo = []"
| "timersOf (CombatArena s) = timers s"

text \<open>
  The rest of what is on display: whether the winner announcement shows
  (\<^verbatim>\<open>combatFinished && winner\<close>), the winner, and per fighter card the pair of
  classes \<^verbatim>\<open>attacking\<close> and \<^verbatim>\<open>hit\<close>. The advisory shows none of them.
\<close>

fun finishedOf :: "rendered \<Rightarrow> bool" where
  "finishedOf PleaseSelectTwo = False"
| "finishedOf (CombatArena s) = (combatFinished (state s) \<and> winner (state s) \<noteq> None)"

fun winnerOf :: "rendered \<Rightarrow> fighter option" where
  "winnerOf PleaseSelectTwo = None"
| "winnerOf (CombatArena s) = winner (state s)"

fun flagsOf :: "rendered \<Rightarrow> (bool \<times> bool) list" where
  "flagsOf PleaseSelectTwo = []"
| "flagsOf (CombatArena s) = map (\<lambda>f. (isAttacking f, isHit f)) (fighterStates (state s))"

text \<open>The number of calls of \<^verbatim>\<open>Math.random()\<close>, one per firing of the interval.\<close>

fun drawsOf :: "rendered \<Rightarrow> nat" where
  "drawsOf PleaseSelectTwo = 0"
| "drawsOf (CombatArena s) = randomCalls s"

fun hooksOf :: "rendered \<Rightarrow> hooks option" where
  "hooksOf PleaseSelectTwo = None"
| "hooksOf (CombatArena s) = Some (state s)"

text \<open>
  A click on ``Battle Again'' at time \<open>t\<close>. The button is rendered only inside the
  winner announcement (\<^verbatim>\<open>combatFinished && winner\<close>), and its handler is
  \<^verbatim>\<open>restartCombat\<close>; the clock has moved on to the time of the click.
\<close>

fun battleAgain :: "nat \<Rightarrow> rendered \<Rightarrow> rendered" where
  "battleAgain t PleaseSelectTwo = PleaseSelectTwo"
| "battleAgain t (CombatArena s) =
     (if combatFinished (state s) \<and> winner (state s) \<noteq> None
      then CombatArena (restartCombat (s\<lparr>now := max (now s) t\<rparr>)) else CombatArena s)"

text \<open>
  The states in which a combat run has finished: the first run after the component
  has mounted, and every run that a click on ``Battle Again'' starts from there.
\<close>

inductive finishedRun :: "fighter list \<Rightarrow> rendered \<Rightarrow> bool" where
  first: "length fs = 2 \<Longrightarrow> finishedRun fs (advance rng 12 (CombatResult fs))"
| again: "finishedRun fs r \<Longrightarrow> finishedRun fs (advance rng 12 (battleAgain t r))"


section \<open>The selection of the list page (component \<^verbatim>\<open>CharacterList\<close>)\<close>

text \<open>
  The records on the page are objects, and \<^verbatim>\<open>Array.prototype.includes\<close> compares
  objects by identity. An object is a reference, and the store gives the record behind
  each reference.
\<close>

type_synonym ref = nat

text \<open>
  \<^verbatim>\<open>
  const handleSelect = (character) => {
    if (selectedCharacters.includes(character)) {
      setSelectedCharacters(selectedCharacters.filter(c => c.id !== character.id));
    } else if (selectedCharacters.length < 2) {
      setSelectedCharacters([...selectedCharacters, character]);
    }
  };
  \<close>
  The result is the next value of \<^verbatim>\<open>selectedCharacters\<close>.
\<close>

definition handleSelect :: "(ref \<Rightarrow> fighter) \<Rightarrow> ref list \<Rightarrow> ref \<Rightarrow> ref list" where
  "handleSelect store selectedCharacters character =
     (if character \<in> set selectedCharacters
      then filter (\<lambda>c. id' (store c) \<noteq> id' (store character)) selectedCharacters
      else if length selectedCharacters < 2 then selectedCharacters @ [character]
      else selectedCharacters)"

section \<open>The data fetcher (\<^verbatim>\<open>getCharacters\<close>, \<^verbatim>\<open>getSingleCharacter\<close>)\<close>

text \<open>
  What a step of the fetcher can throw: the rejection of \<^verbatim>\<open>axios.get\<close> (no
  connection, a status outside 2xx such as 404, a body that does not parse), and the
  \<^verbatim>\<open>TypeError\<close> of a property read on \<^verbatim>\<open>undefined\<close>.
\<close>

datatype js_error = AxiosError | TypeError

text \<open>
  The parts of a detail object that the fetcher reads: \<^verbatim>\<open>id\<close>, \<^verbatim>\<open>name\<close>,
  \<^verbatim>\<open>stats\<close> (entries \<^verbatim>\<open>{ base_stat, stat: { name } }\<close>), \<^verbatim>\<open>types\<close> (entries
  \<^verbatim>\<open>{ type: { name } }\<close>) and \<^verbatim>\<open>sprites.front_default\<close>; and an entry
  \<^verbatim>\<open>{ name, url }\<close> of a listing's \<^verbatim>\<open>results\<close>.
\<close>

record stat_entry =
  base_stat :: int
  stat_name :: string

record type_entry =
  type_name :: string

record pokemon =
  pokemon_id :: int
  pokemon_name :: string
  stats :: "stat_entry list"
  types :: "type_entry list"
  front_default :: string

record resource =
  resource_name :: string
  url :: string

text \<open>The body of a response: a listing page or a detail object.\<close>

datatype response_data = Listing "resource list" | Detail pokemon

text \<open>
  The three requests:
  \<^verbatim>\<open>`${BASE_URL}pokemon?limit=${limit}&offset=${offset}`\<close>,
  \<^verbatim>\<open>`${BASE_URL}/pokemon/${id}`\<close> and the \<^verbatim>\<open>url\<close> of a listing entry. The
  network is a function from requests to what \<^verbatim>\<open>await axios.get(...)\<close> gives:
  the rejection or \<^verbatim>\<open>response.data\<close>.
\<close>

datatype request = PokemonPage int int | PokemonById string | Url string

type_synonym network = "request \<Rightarrow> js_error + response_data"

text \<open>
  The record that both operations build from a detail object:
  \<^verbatim>\<open>
  { id: pokemon.id, name: pokemon.name,
    attack: pokemon.stats.find(stat => stat.stat.name === 'attack').base_stat,
    type: pokemon.types[0].type.name,
    image: pokemon.sprites.front_default }
  \<close>
  \<^verbatim>\<open>find\<close> gives \<^verbatim>\<open>undefined\<close> when no entry matches and \<^verbatim>\<open>types[0]\<close> is
  \<^verbatim>\<open>undefined\<close> on an empty array; the property read that follows throws. A body
  with the shape of a listing has no \<^verbatim>\<open>stats\<close>, and \<^verbatim>\<open>pokemon.stats.find\<close> throws.
\<close>

definition formatPokemon :: "response_data \<Rightarrow> js_error + fighter" where
  "formatPokemon data =
     (case data of
        Listing _ \<Rightarrow> Inl TypeError
      | Detail pokemon \<Rightarrow>
          (case find (\<lambda>stat. stat_name stat = ''attack'') (stats pokemon) of
             None \<Rightarrow> Inl TypeError
           | Some stat \<Rightarrow>
               (case types pokemon of
                  [] \<Rightarrow> Inl TypeError
                | t # _ \<Rightarrow>
                    Inr \<lparr>id' = pokemon_id pokemon, name = pokemon_name pokemon,
                         attack = base_stat stat, type = type_name t,
                         image' = front_default pokemon\<rparr>)))"

text \<open>
  A function applied to each element in order, stopping at the first throw: the
  synchronous \<^verbatim>\<open>map\<close> whose callback may throw, and \<^verbatim>\<open>await Promise.all\<close> over
  a \<^verbatim>\<open>map\<close> of promises, which gives the results in the order of the array or
  rejects when one of them rejects. (Which rejection it reports depends on which
  request fails first; the handler reads only its message.)
\<close>

fun mapM :: "('a \<Rightarrow> js_error + 'b) \<Rightarrow> 'a list \<Rightarrow> js_error + 'b list" where
  "mapM f [] = Inr []"
| "mapM f (x # xs) =
     (case f x of
        Inl e \<Rightarrow> Inl e
      | Inr y \<Rightarrow> (case mapM f xs of Inl e \<Rightarrow> Inl e | Inr ys \<Rightarrow> Inr (y # ys)))"

text \<open>
  The \<^verbatim>\<open>try\<close> block of \<^verbatim>\<open>getCharacters\<close>:
  \<^verbatim>\<open>
  const response = await axios.get(`${BASE_URL}pokemon?limit=${limit}&offset=${offset}`)
  const detailedPokemons = await Promise.all(
    response.data.results.map(async (pokemon) => {
      const res = await axios.get(pokemon.url);
      return res.data;
    }));
  return detailedPokemons.map(pokemon => ({ ... }));
  \<close>
  A body without \<^verbatim>\<open>results\<close> makes \<^verbatim>\<open>response.data.results.map\<close> throw.
\<close>

definition getCharactersTry :: "network \<Rightarrow> int \<Rightarrow> int \<Rightarrow> js_error + fighter list" where
  "getCharactersTry net limit offset =
     (case net (PokemonPage limit offset) of
        Inl e \<Rightarrow> Inl e
      | Inr (Detail _) \<Rightarrow> Inl TypeError
      | Inr (Listing results) \<Rightarrow>
          (case mapM (\<lambda>pokemon. net (Url (url pokemon))) results of
             Inl e \<Rightarrow> Inl e
           | Inr detailedPokemons \<Rightarrow> mapM formatPokemon detailedPokemons))"

text \<open>
  The whole function, as the settlement of the promise it returns: \<^const>\<open>Inr\<close> the
  value it resolves to, \<^const>\<open>Inl\<close> a rejection.
  \<^verbatim>\<open>
  try { ... } catch (error) {
    console.error("Error fetching Pokemon:", error.message);
    return [];
  }
  \<close>
\<close>

definition getCharacters :: "network \<Rightarrow> int \<Rightarrow> int \<Rightarrow> js_error + fighter list" where
  "getCharacters net limit offset =
     (case getCharactersTry net limit offset of
        Inl error \<Rightarrow> Inr []
      | Inr formatted \<Rightarrow> Inr formatted)"

text \<open>
  \<^verbatim>\<open>
  try {
    const response = await axios.get(`${BASE_URL}/pokemon/${id}`);
    const pokemon = response.data;
    return { ... };
  } catch (error) {
    console.error('Error fetching Pokemon by ID:', error.message);
    return null;
  }
  \<close>
\<close>

definition getSingleCharacterTry :: "network \<Rightarrow> string \<Rightarrow> js_error + fighter" where
  "getSingleCharacterTry net ident =
     (case net (PokemonById ident) of
        Inl e \<Rightarrow> Inl e
      | Inr data \<Rightarrow> formatPokemon data)"

definition getSingleCharacter :: "network \<Rightarrow> string \<Rightarrow> js_error + fighter option" where
  "getSingleCharacter net ident =
     (case getSingleCharacterTry net ident of
        Inl error \<Rightarrow> Inr None
      | Inr formatted \<Rightarrow> Inr (Some formatted))"

section \<open>Example data\<close>

text \<open>
  The two fighters of the component's documented example (Pikachu with attack 55,
  Charizard with attack 84), a third fighter whose attack equals Pikachu's, and a
  sequence of draws of \<^verbatim>\<open>Math.random()\<close>: 0, 1/4, 1/2, 3/4, 0, ...
\<close>

definition pikachu :: fighter where
  "pikachu = \<lparr>id' = 25, name = ''pikachu'', attack = 55, type = ''electric'', image' = ''url''\<rparr>"

definition charizard :: fighter where
  "charizard = \<lparr>id' = 6, name = ''charizard'', attack = 84, type = ''fire'', image' = ''url''\<rparr>"

definition eevee :: fighter where
  "eevee = \<lparr>id' = 133, name = ''eevee'', attack = 55, type = ''normal'', image' = ''url''\<rparr>"

definition exampleDraws :: "nat \<Rightarrow> real" where
  "exampleDraws k = real (k mod 4) / 4"


text \<open>
  A store with three records, for the selection; two detail objects, the second with an
  empty \<^verbatim>\<open>types\<close> array; and a network that serves one page with a malformed item,
  one page with an item whose detail request fails, the detail of Pikachu, and answers
  every other request with a failure.
\<close>

definition exampleStore :: "ref \<Rightarrow> fighter" where
  "exampleStore r = (if r = 0 then pikachu else if r = 1 then charizard else eevee)"

definition pikachuDetail :: pokemon where
  "pikachuDetail =
     \<lparr>pokemon_id = 25, pokemon_name = ''pikachu'',
      stats = [\<lparr>base_stat = 35, stat_name = ''hp''\<rparr>, \<lparr>base_stat = 55, stat_name = ''attack''\<rparr>],
      types = [\<lparr>type_name = ''electric''\<rparr>], front_default = ''url''\<rparr>"

definition typelessDetail :: pokemon where
  "typelessDetail =
     \<lparr>pokemon_id = 0, pokemon_name = ''missingno'',
      stats = [\<lparr>base_stat = 136, stat_name = ''attack''\<rparr>], types = [], front_default = ''url''\<rparr>"

definition exampleNet :: network where
  "exampleNet req =
     (if req = PokemonPage 20 0
      then Inr (Listing [\<lparr>resource_name = ''pikachu'', url = ''pokemon/25/''\<rparr>,
                         \<lparr>resource_name = ''missingno'', url = ''pokemon/0/''\<rparr>])
      else if req = PokemonPage 20 40
      then Inr (Listing [\<lparr>resource_name = ''pikachu'', url = ''pokemon/25/''\<rparr>,
                         \<lparr>resource_name = ''gone'', url = ''pokemon/404/''\<rparr>])
      else if req = Url ''pokemon/25/'' \<or> req = PokemonById ''25'' then Inr (Detail pikachuDetail)
      else if req = Url ''pokemon/0/'' then Inr (Detail typelessDetail)
      else Inl AxiosError)"

section \<open>The schedule of a run\<close>

text \<open>
  A mounted arena before its run has finished: pristine or not (\<open>p\<close>), the log \<open>lg\<close>, fighter 0 flagged as
  attacking (and fighter 1 as hit) when \<open>a0\<close>, fighter 1 flagged as attacking (and
  fighter 0 as hit) when \<open>a1\<close>, at time \<open>t\<close> after \<open>k\<close> draws, with the timers \<open>tm\<close>.
\<close>

definition running ::
  "fighter list \<Rightarrow> bool \<Rightarrow> string list \<Rightarrow> bool \<Rightarrow> bool \<Rightarrow> nat \<Rightarrow> nat \<Rightarrow>
     (nat \<times> callback) list \<Rightarrow> sys" where
  "running fs p lg a0 a1 t k tm =
     \<lparr>fighters = fs,
      state = \<lparr>combatLog = lg, currentAttacker = 0, combatFinished = False, winner = None,
        fighterStates =
          [fighter.extend (fs ! 0) \<lparr>isAttacking = a0, isHit = a1\<rparr>,
           fighter.extend (fs ! 1) \<lparr>isAttacking = a1, isHit = a0\<rparr>]\<rparr>,
      pristine = p, now = t, randomCalls = k, timers = tm\<rparr>"

text \<open>The arena after its run: the winner \<open>w\<close> is declared and no timer is pending.\<close>

definition finished :: "fighter list \<Rightarrow> string list \<Rightarrow> fighter \<Rightarrow> nat \<Rightarrow> nat \<Rightarrow> sys" where
  "finished fs lg w t k =
     \<lparr>fighters = fs,
      state = \<lparr>combatLog = lg, currentAttacker = 0, combatFinished = True, winner = Some w,
        fighterStates = freshFighterStates fs\<rparr>,
      pristine = False, now = t, randomCalls = k, timers = []\<rparr>"

text \<open>The log line of the \<open>i\<close>-th firing of the interval (from 0) of a run that starts after \<open>k\<close> draws.\<close>

definition roundLine :: "fighter list \<Rightarrow> (nat \<Rightarrow> real) \<Rightarrow> nat \<Rightarrow> nat \<Rightarrow> string" where
  "roundLine fs rng k i =
     attackLine (fs ! (i mod 2)) (getRandomMove (rng (k + i)) (type (fs ! (i mod 2))))"

text \<open>The winner that \<^const>\<open>DetermineWinner\<close> picks.\<close>

definition combatWinner :: "fighter list \<Rightarrow> fighter" where
  "combatWinner fs = (if attack (fs ! 0) > attack (fs ! 1) then fs ! 0 else fs ! 1)"

section \<open>Lemmas on the event loop\<close>

lemmas setter_defs = setCombatLog_def setCurrentAttacker_def setCombatFinished_def
  setWinner_def setFighterStates_def setTimeout_def

lemma steps_numeral: "steps rng (numeral n) s = steps rng (pred_numeral n) (step rng s)"
  by (simp add: numeral_eq_Suc)




lemma step_SimulateCombat:
  "step rng (running fs p lg a0 a1 t k [(d, SimulateCombat)]) =
     running fs p lg a0 a1 (max t d) k [(max t d + 2500, CombatInterval 0 1)]"
  by (simp add: step_def running_def)

lemma step_CombatInterval:
  "step rng (running fs p lg a0 a1 t k [(d, CombatInterval a r)]) =
     running fs False
       (lg @ [attackLine (fs ! nat a) (getRandomMove (rng k) (type (fs ! nat a)))])
       ((if p then a else 1 - a) = 0) ((if p then a else 1 - a) = 1) (max t d) (k + 1)
       ((max t d + 1000, ResetAnimations) #
        (if r \<ge> 5 then [(max t d + 1500, DetermineWinner)]
         else [(max t d + 2500, CombatInterval (1 - a) (r + 1))]))"
  by (auto simp add: step_def running_def setter_defs maxRounds_def enumerate_eq_zip Let_def
      fighter.defs)

lemma step_ResetAnimations:
  "d \<le> e \<Longrightarrow> step rng (running fs p lg a0 a1 t k [(d, ResetAnimations), (e, cb)]) =
     running fs False lg False False (max t d) k [(e, cb)]"
  by (auto simp add: step_def running_def setter_defs fighter.defs)

lemma step_DetermineWinner:
  "step rng (running fs p lg False False t k [(d, DetermineWinner)]) =
     finished fs (lg @ [winnerLine (combatWinner fs)]) (combatWinner fs) (max t d) k"
  by (simp add: step_def running_def finished_def combatWinner_def setter_defs Let_def
      freshFighterStates_def)

lemmas step_running =
  step_SimulateCombat step_CombatInterval step_ResetAnimations step_DetermineWinner

lemma add_small:
  fixes k :: nat
  shows "k + 3 = Suc (Suc (Suc k))"
    and "k + 4 = Suc (Suc (Suc (Suc k)))"
    and "k + 5 = Suc (Suc (Suc (Suc (Suc k))))"
  by simp_all

lemma steps_trace:
  fixes fs :: "fighter list" and rng :: "nat \<Rightarrow> real" and t d k :: nat and p :: bool
  defines "s0 \<equiv> running fs p [] False False t k [(t + d, SimulateCombat)]"
    and "T \<equiv> t + d"
    and "l \<equiv> roundLine fs rng k"
  shows "steps rng 0 s0 = s0"
    and "steps rng 1 s0 = running fs p [] False False T k [(T + 2500, CombatInterval 0 1)]"
    and "steps rng 2 s0 = running fs False [l 0] p (\<not> p) (T + 2500) (k + 1)
           [(T + 3500, ResetAnimations), (T + 5000, CombatInterval 1 2)]"
    and "steps rng 3 s0 = running fs False [l 0] False False (T + 3500) (k + 1)
           [(T + 5000, CombatInterval 1 2)]"
    and "steps rng 4 s0 = running fs False [l 0, l 1] True False (T + 5000) (k + 2)
           [(T + 6000, ResetAnimations), (T + 7500, CombatInterval 0 3)]"
    and "steps rng 5 s0 = running fs False [l 0, l 1] False False (T + 6000) (k + 2)
           [(T + 7500, CombatInterval 0 3)]"
    and "steps rng 6 s0 = running fs False [l 0, l 1, l 2] False True (T + 7500) (k + 3)
           [(T + 8500, ResetAnimations), (T + 10000, CombatInterval 1 4)]"
    and "steps rng 7 s0 = running fs False [l 0, l 1, l 2] False False (T + 8500) (k + 3)
           [(T + 10000, CombatInterval 1 4)]"
    and "steps rng 8 s0 = running fs False [l 0, l 1, l 2, l 3] True False (T + 10000) (k + 4)
           [(T + 11000, ResetAnimations), (T + 12500, CombatInterval 0 5)]"
    and "steps rng 9 s0 = running fs False [l 0, l 1, l 2, l 3] False False (T + 11000) (k + 4)
           [(T + 12500, CombatInterval 0 5)]"
    and "steps rng 10 s0 = running fs False [l 0, l 1, l 2, l 3, l 4] False True (T + 12500) (k + 5)
           [(T + 13500, ResetAnimations), (T + 14000, DetermineWinner)]"
    and "steps rng 11 s0 = running fs False [l 0, l 1, l 2, l 3, l 4] False False (T + 13500) (k + 5)
           [(T + 14000, DetermineWinner)]"
    and "steps rng 12 s0 =
           finished fs [l 0, l 1, l 2, l 3, l 4, winnerLine (combatWinner fs)] (combatWinner fs)
             (T + 14000) (k + 5)"
  unfolding s0_def T_def l_def roundLine_def
  by (simp_all add: steps_numeral step_running add_small ac_simps)

lemma running_sel:
  "fighters (running fs p lg a0 a1 t k tm) = fs"
  "combatLog (state (running fs p lg a0 a1 t k tm)) = lg"
  "currentAttacker (state (running fs p lg a0 a1 t k tm)) = 0"
  "combatFinished (state (running fs p lg a0 a1 t k tm)) = False"
  "winner (state (running fs p lg a0 a1 t k tm)) = None"
  "map (\<lambda>f. (isAttacking f, isHit f)) (fighterStates (state (running fs p lg a0 a1 t k tm))) =
     [(a0, a1), (a1, a0)]"
  "pristine (running fs p lg a0 a1 t k tm) = p"
  "now (running fs p lg a0 a1 t k tm) = t"
  "randomCalls (running fs p lg a0 a1 t k tm) = k"
  "timers (running fs p lg a0 a1 t k tm) = tm"
  by (simp_all add: running_def fighter.defs)

lemma finished_sel:
  "fighters (finished fs lg w t k) = fs"
  "combatLog (state (finished fs lg w t k)) = lg"
  "currentAttacker (state (finished fs lg w t k)) = 0"
  "combatFinished (state (finished fs lg w t k)) = True"
  "winner (state (finished fs lg w t k)) = Some w"
  "map (\<lambda>f. (isAttacking f, isHit f)) (fighterStates (state (finished fs lg w t k))) =
     [(False, False), (False, False)]"
  "pristine (finished fs lg w t k) = False"
  "now (finished fs lg w t k) = t"
  "randomCalls (finished fs lg w t k) = k"
  "timers (finished fs lg w t k) = []"
  by (simp_all add: finished_def freshFighterStates_def fighter.defs)



lemma CombatResult_two:
  "length fs = 2 \<Longrightarrow>
     CombatResult fs = CombatArena (running fs True [] False False 0 0 [(0 + 1000, SimulateCombat)])"
  by (simp add: CombatResult_def running_def initialHooks_def freshFighterStates_def
      setTimeout_def)

lemma CombatResult_other: "length fs \<noteq> 2 \<Longrightarrow> CombatResult fs = PleaseSelectTwo"
  by (simp add: CombatResult_def)


lemma advance_two:
  "length fs = 2 \<Longrightarrow>
     advance rng n (CombatResult fs) =
       CombatArena (steps rng n (running fs True [] False False 0 0 [(0 + 1000, SimulateCombat)]))"
  by (simp add: CombatResult_two)

lemma DetermineWinner_winner:
  "winner (state (runCallback rng DetermineWinner s)) =
     Some (if attack (fighters s ! 0) > attack (fighters s ! 1) then fighters s ! 0 else fighters s ! 1)"
  by (simp add: setter_defs Let_def)

lemma capitalizeFirst_examples:
  "capitalizeFirst ''pikachu'' = ''Pikachu''"
  "capitalizeFirst ''charizard'' = ''Charizard''"
  "capitalizeFirst ''eevee'' = ''Eevee''"
  by code_simp+









lemma advance_12:
  "length fs = 2 \<Longrightarrow>
     advance rng 12 (CombatResult fs) =
       CombatArena (finished fs
         [roundLine fs rng 0 0, roundLine fs rng 0 1, roundLine fs rng 0 2,
          roundLine fs rng 0 3, roundLine fs rng 0 4, winnerLine (combatWinner fs)]
         (combatWinner fs) 15000 5)"
  by (simp only: advance_two steps_trace(13)) simp

lemma restart_finished:
  "restartCombat ((finished fs lg w t k)\<lparr>now := t'\<rparr>) =
     running fs False [] False False t' k [(t' + 500, SimulateCombat)]"
  by (simp add: restartCombat_def finished_def running_def setter_defs freshFighterStates_def)

lemma battleAgain_finished:
  "battleAgain t' (CombatArena (finished fs lg w t k)) =
     CombatArena (running fs False [] False False (max t t') k [(max t t' + 500, SimulateCombat)])"
  using restart_finished [where fs = fs and lg = lg and w = w and t = t and k = k and t' = "max t t'"]
  by (simp add: finished_sel)

lemma finishedRun_shape:
  "finishedRun fs r \<Longrightarrow> length fs = 2 \<and> (\<exists>lg w t k. r = CombatArena (finished fs lg w t k))"
proof (induction rule: finishedRun.induct)
  case (first fs rng)
  then show ?case
    by (auto simp add: advance_12)
next
  case (again fs r rng t')
  then obtain lg w t k where r: "r = CombatArena (finished fs lg w t k)"
    by blast
  have "advance rng 12 (battleAgain t' r) =
      CombatArena (steps rng 12 (running fs False [] False False (max t t') k [(max t t' + 500, SimulateCombat)]))"
    unfolding r battleAgain_finished by simp
  then show ?case
    using again.IH unfolding steps_trace(13) by blast
qed

section \<open>The claims on the combat sequencer\<close>

text \<open>
  C1 (as amended). When the sequencer resolves the outcome it declares the first
  participant the winner exactly when its attack is strictly greater, and the second
  participant otherwise; when both have equal attack the second participant
  (\<^verbatim>\<open>fighters[1]\<close>) is declared winner. This holds of the resolving callback in
  every state, and of the winner on display when the run of two fighters has finished
  (the 12th turn of the event loop).
\<close>

theorem winner_rule:
  assumes "length fs = 2"
  shows "winnerOf (advance rng 12 (CombatResult fs)) =
           Some (if attack (fs ! 0) > attack (fs ! 1) then fs ! 0 else fs ! 1)
       \<and> (attack (fs ! 0) = attack (fs ! 1) \<longrightarrow>
            winnerOf (advance rng 12 (CombatResult fs)) = Some (fs ! 1))
       \<and> (\<forall>s. fighters s = fs \<longrightarrow>
            winner (state (runCallback rng DetermineWinner s)) =
              Some (if attack (fs ! 0) > attack (fs ! 1) then fs ! 0 else fs ! 1))
       \<and> last (logOf (advance rng 12 (CombatResult fs))) =
            winnerLine (if attack (fs ! 0) > attack (fs ! 1) then fs ! 0 else fs ! 1)"
proof -
  have run: "advance rng 12 (CombatResult fs) =
      CombatArena (finished fs
        [roundLine fs rng 0 0, roundLine fs rng 0 1, roundLine fs rng 0 2,
         roundLine fs rng 0 3, roundLine fs rng 0 4, winnerLine (combatWinner fs)]
        (combatWinner fs) (0 + 1000 + 14000) (0 + 5))"
    using assms by (simp only: advance_two steps_trace(13))
  have w: "winnerOf (advance rng 12 (CombatResult fs)) = Some (combatWinner fs)"
    unfolding run by (simp add: finished_def)
  have l: "last (logOf (advance rng 12 (CombatResult fs))) = winnerLine (combatWinner fs)"
    unfolding run by (simp add: finished_def)
  show ?thesis
    using w l by (simp add: combatWinner_def DetermineWinner_winner del: runCallback.simps)
qed

theorem winner_rule_witness:
  "length [pikachu, eevee] = 2
   \<and> attack ([pikachu, eevee] ! 0) = attack ([pikachu, eevee] ! 1)
   \<and> winnerOf (advance exampleDraws 12 (CombatResult [pikachu, eevee])) = Some eevee
   \<and> last (logOf (advance exampleDraws 12 (CombatResult [pikachu, eevee]))) =
       ''Eevee wins the battle!''"
  using winner_rule [of "[pikachu, eevee]" exampleDraws]
  by (simp add: pikachu_def eevee_def winnerLine_def capitalizeFirst_examples
      del: capitalizeFirst.simps)

theorem tie_counterexample:
  "attack ([pikachu, eevee] ! 0) = attack ([pikachu, eevee] ! 1)
   \<and> winnerOf (advance exampleDraws 12 (CombatResult [pikachu, eevee])) \<noteq>
       Some ([pikachu, eevee] ! 0)"
proof -
  have "length [pikachu, eevee] = 2"
    by simp
  then have "advance exampleDraws 12 (CombatResult [pikachu, eevee]) =
      CombatArena (finished [pikachu, eevee]
        [roundLine [pikachu, eevee] exampleDraws 0 0, roundLine [pikachu, eevee] exampleDraws 0 1,
         roundLine [pikachu, eevee] exampleDraws 0 2, roundLine [pikachu, eevee] exampleDraws 0 3,
         roundLine [pikachu, eevee] exampleDraws 0 4, winnerLine (combatWinner [pikachu, eevee])]
        (combatWinner [pikachu, eevee]) (0 + 1000 + 14000) (0 + 5))"
    by (simp only: advance_two steps_trace(13))
  then have "winnerOf (advance exampleDraws 12 (CombatResult [pikachu, eevee])) =
      Some (combatWinner [pikachu, eevee])"
    by (simp add: finished_def)
  then show ?thesis
    by (simp add: combatWinner_def pikachu_def eevee_def)
qed



text \<open>
  C3. For every pair of fighters the declared winner is one of the two and its attack is
  greater than or equal to the attack of both participants; in particular, for attack
  values (55, 84), in either order, the participant with attack 84 is declared winner.
\<close>

theorem winner_attack_ge:
  assumes "length fs = 2"
  shows "\<exists>w. winnerOf (advance rng 12 (CombatResult fs)) = Some w
       \<and> w \<in> set fs
       \<and> attack (fs ! 0) \<le> attack w \<and> attack (fs ! 1) \<le> attack w
       \<and> (attack (fs ! 0) = 55 \<and> attack (fs ! 1) = 84 \<longrightarrow> w = fs ! 1 \<and> attack w = 84)
       \<and> (attack (fs ! 0) = 84 \<and> attack (fs ! 1) = 55 \<longrightarrow> w = fs ! 0 \<and> attack w = 84)"
proof -
  have "winnerOf (advance rng 12 (CombatResult fs)) = Some (combatWinner fs)"
    using assms by (simp add: advance_12 finished_sel)
  moreover have "combatWinner fs \<in> set fs"
    using assms by (simp add: combatWinner_def)
  moreover have "attack (fs ! 0) \<le> attack (combatWinner fs)"
    "attack (fs ! 1) \<le> attack (combatWinner fs)"
    by (simp_all add: combatWinner_def)
  moreover have "attack (fs ! 0) = 55 \<and> attack (fs ! 1) = 84 \<longrightarrow>
      combatWinner fs = fs ! 1 \<and> attack (combatWinner fs) = 84"
    by (simp add: combatWinner_def)
  moreover have "attack (fs ! 0) = 84 \<and> attack (fs ! 1) = 55 \<longrightarrow>
      combatWinner fs = fs ! 0 \<and> attack (combatWinner fs) = 84"
    by (simp add: combatWinner_def)
  ultimately show ?thesis
    by blast
qed

theorem winner_attack_ge_witness:
  "length [pikachu, charizard] = 2
   \<and> attack ([pikachu, charizard] ! 0) = 55 \<and> attack ([pikachu, charizard] ! 1) = 84
   \<and> winnerOf (advance exampleDraws 12 (CombatResult [pikachu, charizard])) = Some charizard
   \<and> attack charizard = 84"
proof -
  have "length [pikachu, charizard] = 2"
    by simp
  from winner_attack_ge [OF this, of exampleDraws] show ?thesis
    by (auto simp add: pikachu_def charizard_def)
qed

text \<open>
  C4. For every fighters input whose length is not exactly 2 the component renders the
  advisory ``Please select two Pokemon'': no timer is ever pending, so no animation
  runs, and after any number of turns of the event loop it still renders the advisory,
  with no log line, no fighter flagged and no random move drawn.
\<close>

theorem need_two_fighters:
  assumes "length fs \<noteq> 2"
  shows "CombatResult fs = PleaseSelectTwo
       \<and> timersOf (CombatResult fs) = []
       \<and> advance rng n (CombatResult fs) = PleaseSelectTwo
       \<and> logOf (advance rng n (CombatResult fs)) = []
       \<and> flagsOf (advance rng n (CombatResult fs)) = []
       \<and> drawsOf (advance rng n (CombatResult fs)) = 0
       \<and> battleAgain t (advance rng n (CombatResult fs)) = PleaseSelectTwo"
  using assms by (simp add: CombatResult_other)

theorem need_two_fighters_witness:
  "length ([] :: fighter list) \<noteq> 2
   \<and> length [pikachu] \<noteq> 2
   \<and> length [pikachu, charizard, eevee] \<noteq> 2
   \<and> CombatResult [] = PleaseSelectTwo
   \<and> logOf (advance exampleDraws 12 (CombatResult [pikachu])) = []
   \<and> logOf (advance exampleDraws 12 (CombatResult [pikachu, charizard, eevee])) = []"
  using need_two_fighters [of "[]" exampleDraws 12]
    need_two_fighters [of "[pikachu]" exampleDraws 12]
    need_two_fighters [of "[pikachu, charizard, eevee]" exampleDraws 12]
  by simp









text \<open>
  C9. For every finished combat run (the first run after mounting and every run started
  by a restart), nothing of the run is still pending, and the restart operation resets
  the state to the initial pre-run state, the state with which the component mounts:
  empty log, all animation flags false, the attacker cell 0, no winner, not finished.
  Its only timer is the start timeout, due 500 ms after the click. The first turn of
  the event loop after that starts the interval with the round counter at 1 and
  attacker 0 and leaves the log empty; the first new log line appears with the second
  turn, and the re-armed run ends with 6 lines of its own.
\<close>

theorem restart_resets:
  assumes "finishedRun fs r"
  shows "finishedOf r \<and> timersOf r = []
       \<and> hooksOf (battleAgain t r) = hooksOf (CombatResult fs)
       \<and> hooksOf (battleAgain t r) = Some (initialHooks fs)
       \<and> logOf (battleAgain t r) = []
       \<and> flagsOf (battleAgain t r) = [(False, False), (False, False)]
       \<and> winnerOf (battleAgain t r) = None
       \<and> \<not> finishedOf (battleAgain t r)
       \<and> (\<exists>clock\<ge>t.
            timersOf (battleAgain t r) = [(clock + 500, SimulateCombat)]
          \<and> timersOf (advance rng 1 (battleAgain t r)) = [(clock + 3000, CombatInterval 0 1)])
       \<and> logOf (advance rng 1 (battleAgain t r)) = []
       \<and> length (logOf (advance rng 2 (battleAgain t r))) = 1
       \<and> length (logOf (advance rng 12 (battleAgain t r))) = 6
       \<and> finishedOf (advance rng 12 (battleAgain t r))"
proof -
  from finishedRun_shape [OF assms] obtain lg w t0 k
    where len: "length fs = 2" and r: "r = CombatArena (finished fs lg w t0 k)"
    by blast
  let ?T = "max t0 t"
  let ?s = "running fs False [] False False ?T k [(?T + 500, SimulateCombat)]"
  have b: "battleAgain t r = CombatArena ?s"
    unfolding r by (rule battleAgain_finished)
  have mount: "hooksOf (CombatResult fs) = Some (initialHooks fs)"
    using len by (simp add: CombatResult_def setTimeout_def)
  have fresh: "state ?s = initialHooks fs"
    by (simp add: running_def initialHooks_def freshFighterStates_def)
  have "finishedOf r" "timersOf r = []"
    unfolding r by (simp_all add: finished_sel)
  moreover have "hooksOf (battleAgain t r) = hooksOf (CombatResult fs)"
    "hooksOf (battleAgain t r) = Some (initialHooks fs)"
    unfolding b mount by (simp_all add: fresh)
  moreover have "logOf (battleAgain t r) = []"
    "flagsOf (battleAgain t r) = [(False, False), (False, False)]"
    "winnerOf (battleAgain t r) = None" "\<not> finishedOf (battleAgain t r)"
    unfolding b by (simp_all add: running_sel)
  moreover have "timersOf (battleAgain t r) = [(?T + 500, SimulateCombat)]"
    "timersOf (advance rng 1 (battleAgain t r)) = [(?T + 3000, CombatInterval 0 1)]"
    "logOf (advance rng 1 (battleAgain t r)) = []"
    "length (logOf (advance rng 2 (battleAgain t r))) = 1"
    "length (logOf (advance rng 12 (battleAgain t r))) = 6"
    "finishedOf (advance rng 12 (battleAgain t r))"
    unfolding b advance.simps steps_trace
    by (simp_all add: running_sel finished_sel)
  moreover have "t \<le> ?T"
    by simp
  ultimately show ?thesis
    by blast
qed

theorem restart_resets_witness:
  "finishedRun [pikachu, charizard] (advance exampleDraws 12 (CombatResult [pikachu, charizard]))
   \<and> finishedOf (advance exampleDraws 12 (CombatResult [pikachu, charizard]))
   \<and> logOf (battleAgain 20000
        (advance exampleDraws 12 (CombatResult [pikachu, charizard]))) = []
   \<and> logOf (advance exampleDraws 1 (battleAgain 20000
        (advance exampleDraws 12 (CombatResult [pikachu, charizard])))) = []
   \<and> hooksOf (battleAgain 20000
        (advance exampleDraws 12 (CombatResult [pikachu, charizard]))) =
       hooksOf (CombatResult [pikachu, charizard])"
proof -
  have "length [pikachu, charizard] = 2"
    by simp
  then have f: "finishedRun [pikachu, charizard]
      (advance exampleDraws 12 (CombatResult [pikachu, charizard]))"
    by (rule finishedRun.first)
  from restart_resets [OF f, of 20000 exampleDraws] f show ?thesis
    by blast
qed

section \<open>The claim on move selection\<close>

lemma index_in_bounds:
  assumes "0 \<le> r" and "r < 1" and "0 < n"
  shows "0 \<le> \<lfloor>r * real n\<rfloor>" and "\<lfloor>r * real n\<rfloor> < int n"
proof -
  from assms show "0 \<le> \<lfloor>r * real n\<rfloor>"
    by simp
  have "r * real n < 1 * real n"
    using assms by (intro mult_strict_right_mono) simp_all
  then show "\<lfloor>r * real n\<rfloor> < int n"
    by (simp add: floor_less_iff)
qed

lemma arrayGet_in_bounds:
  "0 \<le> i \<Longrightarrow> i < int (length xs) \<Longrightarrow> \<exists>x\<in>set xs. arrayGet xs i = Some x"
  by (simp add: arrayGet_def)

lemma table_length:
  "attackMovesGet ty = Moves moves \<Longrightarrow> length moves = 4"
  by (auto simp add: attackMovesGet_def attackMoves_def defaultMoves_def
      split: option.splits if_splits)

lemma getRandomMove_table:
  assumes "0 \<le> r" and "r < 1" and "attackMovesGet ty = Moves moves"
  shows "\<exists>m\<in>set moves. getRandomMove r ty = Some m"
proof -
  have "0 < length moves"
    using table_length [OF assms(3)] by simp
  from index_in_bounds [OF assms(1,2) this] show ?thesis
    by (simp add: getRandomMove_def assms(3) arrayGet_in_bounds)
qed

lemma getRandomMove_fallback:
  assumes "0 \<le> r" and "r < 1" and "attackMovesGet ty = Undefined"
  shows "\<exists>m\<in>set defaultMoves. getRandomMove r ty = Some m"
proof -
  have "0 < length defaultMoves"
    by (simp add: defaultMoves_def)
  from index_in_bounds [OF assms(1,2) this] show ?thesis
    by (simp add: getRandomMove_def assms(3) arrayGet_in_bounds)
qed

lemma catalogue_not_inherited: "\<forall>ty\<in>set catalogueTypes. ty \<notin> set objectPrototypeKeys"
  by (simp add: catalogueTypes_def objectPrototypeKeys_def)

lemma catalogue_table:
  assumes "ty \<in> set catalogueTypes"
  shows "\<exists>moves. attackMovesGet ty = Moves moves
      \<or> attackMovesGet ty = Undefined \<and> moves = defaultMoves"
  using assms catalogue_not_inherited
  by (auto simp add: attackMovesGet_def split: option.splits)

lemma getRandomMove_index:
  assumes "0 \<le> r" and "r < 1"
    and "attackMovesGet ty = Moves moves \<or> attackMovesGet ty = Undefined \<and> moves = defaultMoves"
  shows "0 \<le> \<lfloor>r * real (length moves)\<rfloor>" and "\<lfloor>r * real (length moves)\<rfloor> < int (length moves)"
    and "getRandomMove r ty = Some (moves ! nat \<lfloor>r * real (length moves)\<rfloor>)"
proof -
  from assms(3) have "0 < length moves"
    using table_length [of ty moves] by (auto simp add: defaultMoves_def)
  from index_in_bounds [OF assms(1,2) this]
  show b: "0 \<le> \<lfloor>r * real (length moves)\<rfloor>" "\<lfloor>r * real (length moves)\<rfloor> < int (length moves)" .
  from assms(3) b show "getRandomMove r ty = Some (moves ! nat \<lfloor>r * real (length moves)\<rfloor>)"
    by (auto simp add: getRandomMove_def arrayGet_def)
qed

lemma getRandomMove_unkeyed:
  assumes "0 \<le> r" and "r < 1"
    and "ty \<notin> set (map fst attackMoves)" and "ty \<notin> set objectPrototypeKeys"
  shows "\<exists>m\<in>set [''Tackle'', ''Scratch'', ''Quick Attack'', ''Body Slam'']. getRandomMove r ty = Some m"
proof -
  from assms(3) have "map_of attackMoves ty = None"
    by (simp add: map_of_eq_None_iff)
  with assms(4) have "attackMovesGet ty = Undefined"
    by (simp add: attackMovesGet_def)
  from getRandomMove_fallback [OF assms(1,2) this] show ?thesis
    by (simp add: defaultMoves_def)
qed

text \<open>
  C5. For every random draw \<open>r\<close> in \<open>[0, 1)\<close>, move selection for category ``fire''
  returns an element of {Flamethrower, Fire Blast, Ember, Fire Punch}, and for every
  category label that is not in the lookup table it returns an element of the 4-entry
  default table {Tackle, Scratch, Quick Attack, Body Slam}; the random index is always
  within the table's bounds. The category labels are the type names of the catalogue:
  for each of them the lookup yields a table (its own or the default one), the index
  lies within that table and the move is the entry at the index. The fallback holds as
  well of every other label that is not the name of a member which the table object
  inherits.
\<close>

theorem move_selection:
  assumes "0 \<le> r" and "r < 1"
  shows "(\<exists>m\<in>set [''Flamethrower'', ''Fire Blast'', ''Ember'', ''Fire Punch''].
            getRandomMove r ''fire'' = Some m)
       \<and> (\<forall>ty\<in>set catalogueTypes. ty \<notin> set (map fst attackMoves) \<longrightarrow>
            (\<exists>m\<in>set [''Tackle'', ''Scratch'', ''Quick Attack'', ''Body Slam''].
               getRandomMove r ty = Some m))
       \<and> (\<forall>ty\<in>set catalogueTypes. \<exists>moves.
            (attackMovesGet ty = Moves moves
               \<or> attackMovesGet ty = Undefined \<and> moves = defaultMoves)
          \<and> 0 \<le> \<lfloor>r * real (length moves)\<rfloor> \<and> \<lfloor>r * real (length moves)\<rfloor> < int (length moves)
          \<and> getRandomMove r ty = Some (moves ! nat \<lfloor>r * real (length moves)\<rfloor>))
       \<and> (\<forall>ty. ty \<notin> set (map fst attackMoves) \<and> ty \<notin> set objectPrototypeKeys \<longrightarrow>
            (\<exists>m\<in>set [''Tackle'', ''Scratch'', ''Quick Attack'', ''Body Slam''].
               getRandomMove r ty = Some m))"
proof (intro conjI ballI allI impI)
  have "attackMovesGet ''fire'' = Moves [''Flamethrower'', ''Fire Blast'', ''Ember'', ''Fire Punch'']"
    by (simp add: attackMovesGet_def attackMoves_def)
  from getRandomMove_table [OF assms this]
  show "\<exists>m\<in>set [''Flamethrower'', ''Fire Blast'', ''Ember'', ''Fire Punch''].
      getRandomMove r ''fire'' = Some m" .
next
  fix ty
  assume "ty \<in> set catalogueTypes" and "ty \<notin> set (map fst attackMoves)"
  with catalogue_not_inherited getRandomMove_unkeyed [OF assms, of ty]
  show "\<exists>m\<in>set [''Tackle'', ''Scratch'', ''Quick Attack'', ''Body Slam''].
      getRandomMove r ty = Some m"
    by blast
next
  fix ty
  assume "ty \<in> set catalogueTypes"
  from catalogue_table [OF this] obtain moves
    where t: "attackMovesGet ty = Moves moves
      \<or> attackMovesGet ty = Undefined \<and> moves = defaultMoves"
    by blast
  from t getRandomMove_index [OF assms t]
  show "\<exists>moves. (attackMovesGet ty = Moves moves
        \<or> attackMovesGet ty = Undefined \<and> moves = defaultMoves)
      \<and> 0 \<le> \<lfloor>r * real (length moves)\<rfloor> \<and> \<lfloor>r * real (length moves)\<rfloor> < int (length moves)
      \<and> getRandomMove r ty = Some (moves ! nat \<lfloor>r * real (length moves)\<rfloor>)"
    by blast
next
  fix ty
  assume "ty \<notin> set (map fst attackMoves) \<and> ty \<notin> set objectPrototypeKeys"
  with getRandomMove_unkeyed [OF assms, of ty]
  show "\<exists>m\<in>set [''Tackle'', ''Scratch'', ''Quick Attack'', ''Body Slam''].
      getRandomMove r ty = Some m"
    by blast
qed

theorem move_selection_witness:
  "(0::real) \<le> 3 / 4 \<and> (3 / 4 :: real) < 1
   \<and> getRandomMove (3 / 4) ''fire'' = Some ''Fire Punch''
   \<and> ''ghost'' \<in> set catalogueTypes \<and> ''ghost'' \<notin> set (map fst attackMoves)
   \<and> getRandomMove (3 / 4) ''ghost'' = Some ''Body Slam''
   \<and> ''water'' \<in> set catalogueTypes
   \<and> attackMovesGet ''water'' = Moves [''Water Gun'', ''Hydro Pump'', ''Bubble Beam'', ''Surf'']
   \<and> \<lfloor>(3 / 4 :: real) * real (length [''Water Gun'', ''Hydro Pump'', ''Bubble Beam'', ''Surf''])\<rfloor> = 3
   \<and> getRandomMove (3 / 4) ''water'' = Some ''Surf''"
proof -
  have "(0::real) \<le> 3 / 4" "(3 / 4 :: real) < 1"
    by simp_all
  note sel = move_selection [OF this]
  have "getRandomMove (3 / 4) ''fire'' = Some ''Fire Punch''"
    "getRandomMove (3 / 4) ''ghost'' = Some ''Body Slam''"
    "getRandomMove (3 / 4) ''water'' = Some ''Surf''"
    "attackMovesGet ''water'' = Moves [''Water Gun'', ''Hydro Pump'', ''Bubble Beam'', ''Surf'']"
    by (simp_all add: getRandomMove_def attackMovesGet_def attackMoves_def defaultMoves_def
        objectPrototypeKeys_def arrayGet_def)
  moreover have "''ghost'' \<in> set catalogueTypes" "''water'' \<in> set catalogueTypes"
    "''ghost'' \<notin> set (map fst attackMoves)"
    by (simp_all add: attackMoves_def catalogueTypes_def)
  ultimately show ?thesis
    using sel by simp
qed

section \<open>The claim on the selection\<close>

lemma handleSelect_length:
  "length sel \<le> 2 \<Longrightarrow> length (handleSelect store sel c) \<le> 2"
proof -
  assume le: "length sel \<le> 2"
  have "length (filter (\<lambda>x. id' (store x) \<noteq> id' (store c)) sel) \<le> length sel"
    by (rule length_filter_le)
  with le have "length (filter (\<lambda>x. id' (store x) \<noteq> id' (store c)) sel) \<le> 2"
    by (rule le_trans [rotated])
  with le show ?thesis
    by (simp add: handleSelect_def)
qed

lemma foldl_handleSelect_length:
  "length sel \<le> 2 \<Longrightarrow> length (foldl (handleSelect store) sel cs) \<le> 2"
  by (induction cs arbitrary: sel) (simp_all add: handleSelect_length)

text \<open>
  C8. The selection holds at most two fighter records after every sequence of
  select/deselect operations from the empty selection. Selecting an already-selected
  record removes it (together with every selected record of the same id), selecting an
  unselected record while fewer than two are selected appends it, and selecting an
  unselected record while two are selected leaves the selection unchanged.
\<close>

theorem selection_at_most_two:
  "length (foldl (handleSelect store) [] cs) \<le> 2
   \<and> (c \<in> set sel \<longrightarrow>
        c \<notin> set (handleSelect store sel c)
      \<and> handleSelect store sel c = filter (\<lambda>x. id' (store x) \<noteq> id' (store c)) sel
      \<and> length (handleSelect store sel c) < length sel)
   \<and> (c \<notin> set sel \<and> length sel < 2 \<longrightarrow> handleSelect store sel c = sel @ [c])
   \<and> (c \<notin> set sel \<and> length sel = 2 \<longrightarrow> handleSelect store sel c = sel)"
proof (intro conjI impI)
  show "length (foldl (handleSelect store) [] cs) \<le> 2"
    by (rule foldl_handleSelect_length) simp
next
  assume c: "c \<in> set sel"
  then show "c \<notin> set (handleSelect store sel c)"
    and "handleSelect store sel c = filter (\<lambda>x. id' (store x) \<noteq> id' (store c)) sel"
    by (simp_all add: handleSelect_def)
  from c have "length (filter (\<lambda>x. id' (store x) \<noteq> id' (store c)) sel) < length sel"
    by (rule length_filter_less) simp
  with c show "length (handleSelect store sel c) < length sel"
    by (simp add: handleSelect_def)
next
  assume "c \<notin> set sel \<and> length sel < 2"
  then show "handleSelect store sel c = sel @ [c]"
    by (simp add: handleSelect_def)
next
  assume "c \<notin> set sel \<and> length sel = 2"
  then show "handleSelect store sel c = sel"
    by (simp add: handleSelect_def)
qed

theorem selection_at_most_two_witness:
  "length (foldl (handleSelect exampleStore) [] [0, 1, 2, 0, 2, 1, 1]) \<le> 2
   \<and> (0::nat) \<in> set [0, 1]
   \<and> handleSelect exampleStore [0, 1] 0 = [1]
   \<and> (1::nat) \<notin> set [0] \<and> length [0::nat] < 2
   \<and> handleSelect exampleStore [0] 1 = [0, 1]
   \<and> (2::nat) \<notin> set [0, 1] \<and> length [0::nat, 1] = 2
   \<and> handleSelect exampleStore [0, 1] 2 = [0, 1]"
  using selection_at_most_two [of exampleStore "[0, 1, 2, 0, 2, 1, 1]" 0 "[0, 1]"]
    selection_at_most_two [of exampleStore "[]" 1 "[0]"]
    selection_at_most_two [of exampleStore "[]" 2 "[0, 1]"]
  by (simp add: exampleStore_def pikachu_def charizard_def eevee_def)

section \<open>The claims on the data fetcher\<close>

lemma mapM_Inl:
  "x \<in> set xs \<Longrightarrow> f x = Inl e \<Longrightarrow> \<exists>e'. mapM f xs = Inl e'"
  by (induction xs) (auto split: sum.splits)

lemma mapM_Inr_mem:
  "mapM f xs = Inr ys \<Longrightarrow> x \<in> set xs \<Longrightarrow> \<exists>y\<in>set ys. f x = Inr y"
  by (induction xs arbitrary: ys) (auto split: sum.splits)

lemma getCharacters_resolves: "\<exists>v. getCharacters net limit offset = Inr v"
  by (simp add: getCharacters_def split: sum.splits)

lemma getSingleCharacter_resolves: "\<exists>v. getSingleCharacter net ident = Inr v"
  by (simp add: getSingleCharacter_def split: sum.splits)

lemma getCharacters_caught:
  "getCharactersTry net limit offset = Inl e \<Longrightarrow> getCharacters net limit offset = Inr []"
  by (simp add: getCharacters_def)

lemma getSingleCharacter_caught:
  "getSingleCharacterTry net ident = Inl e \<Longrightarrow> getSingleCharacter net ident = Inr None"
  by (simp add: getSingleCharacter_def)

lemma detail_request_fails:
  assumes "net (PokemonPage limit offset) = Inr (Listing results)"
    and "pokemon \<in> set results" and "net (Url (url pokemon)) = Inl e"
  shows "\<exists>e'. getCharactersTry net limit offset = Inl e'"
proof -
  from mapM_Inl [of pokemon results "\<lambda>pokemon. net (Url (url pokemon))" e] assms(2,3)
  obtain e' where "mapM (\<lambda>pokemon. net (Url (url pokemon))) results = Inl e'"
    by blast
  with assms(1) show ?thesis
    by (simp add: getCharactersTry_def)
qed

lemma formatPokemon_malformed:
  "find (\<lambda>stat. stat_name stat = ''attack'') (stats p) = None \<or> types p = [] \<Longrightarrow>
     formatPokemon (Detail p) = Inl TypeError"
  by (auto simp add: formatPokemon_def split: option.splits list.splits)

text \<open>
  C7. Neither operation ever rejects: whatever the network answers, \<^verbatim>\<open>getCharacters\<close>
  resolves to a sequence and \<^verbatim>\<open>getSingleCharacter\<close> to a record or to the absent value.
  Whenever a step inside the \<^verbatim>\<open>try\<close> block throws, \<^verbatim>\<open>getCharacters\<close> resolves to the
  empty sequence and \<^verbatim>\<open>getSingleCharacter\<close> to the absent value; in particular when the
  listing request fails, when the detail request of one listed item fails, and when the
  detail request for an id fails (as it does for a nonexistent id).
\<close>

theorem fetch_fails_soft:
  "(\<exists>v. getCharacters net limit offset = Inr v)
   \<and> (\<exists>v. getSingleCharacter net ident = Inr v)
   \<and> (getCharactersTry net limit offset = Inl e \<longrightarrow> getCharacters net limit offset = Inr [])
   \<and> (getSingleCharacterTry net ident = Inl e \<longrightarrow> getSingleCharacter net ident = Inr None)
   \<and> (net (PokemonPage limit offset) = Inl e \<longrightarrow> getCharacters net limit offset = Inr [])
   \<and> (net (PokemonPage limit offset) = Inr (Listing results) \<and> pokemon \<in> set results
        \<and> net (Url (url pokemon)) = Inl e \<longrightarrow> getCharacters net limit offset = Inr [])
   \<and> (net (PokemonById ident) = Inl e \<longrightarrow> getSingleCharacter net ident = Inr None)"
proof (intro conjI impI)
  show "\<exists>v. getCharacters net limit offset = Inr v"
    by (rule getCharacters_resolves)
  show "\<exists>v. getSingleCharacter net ident = Inr v"
    by (rule getSingleCharacter_resolves)
  show "getCharacters net limit offset = Inr []" if "getCharactersTry net limit offset = Inl e"
    using that by (rule getCharacters_caught)
  show "getSingleCharacter net ident = Inr None" if "getSingleCharacterTry net ident = Inl e"
    using that by (rule getSingleCharacter_caught)
  show "getCharacters net limit offset = Inr []" if "net (PokemonPage limit offset) = Inl e"
    using that by (simp add: getCharacters_def getCharactersTry_def)
  show "getCharacters net limit offset = Inr []"
    if "net (PokemonPage limit offset) = Inr (Listing results) \<and> pokemon \<in> set results
        \<and> net (Url (url pokemon)) = Inl e"
    using that detail_request_fails [of net limit offset results pokemon e]
    by (auto simp add: getCharacters_caught)
  show "getSingleCharacter net ident = Inr None" if "net (PokemonById ident) = Inl e"
    using that by (simp add: getSingleCharacter_def getSingleCharacterTry_def)
qed

theorem fetch_fails_soft_witness:
  "exampleNet (PokemonPage 20 20) = Inl AxiosError
   \<and> getCharacters exampleNet 20 20 = Inr []
   \<and> exampleNet (Url ''pokemon/404/'') = Inl AxiosError
   \<and> getCharacters exampleNet 20 40 = Inr []
   \<and> exampleNet (PokemonById ''100000'') = Inl AxiosError
   \<and> getSingleCharacter exampleNet ''100000'' = Inr None
   \<and> getSingleCharacter exampleNet ''25'' = Inr (Some pikachu)"
proof -
  have a: "exampleNet (PokemonPage 20 20) = Inl AxiosError"
    and b: "exampleNet (PokemonById ''100000'') = Inl AxiosError"
    by (simp_all add: exampleNet_def)
  have c: "getSingleCharacter exampleNet ''25'' = Inr (Some pikachu)"
    by (simp add: getSingleCharacter_def getSingleCharacterTry_def exampleNet_def
        formatPokemon_def pikachuDetail_def pikachu_def)
  have d: "exampleNet (PokemonPage 20 40) =
      Inr (Listing [\<lparr>resource_name = ''pikachu'', url = ''pokemon/25/''\<rparr>,
                    \<lparr>resource_name = ''gone'', url = ''pokemon/404/''\<rparr>])"
    and e: "exampleNet (Url ''pokemon/404/'') = Inl AxiosError"
    by (simp_all add: exampleNet_def)
  from fetch_fails_soft [of exampleNet 20 20 "''100000''" AxiosError
      "[\<lparr>resource_name = ''pikachu'', url = ''pokemon/25/''\<rparr>,
        \<lparr>resource_name = ''gone'', url = ''pokemon/404/''\<rparr>]"
      "\<lparr>resource_name = ''gone'', url = ''pokemon/404/''\<rparr>"]
    fetch_fails_soft [of exampleNet 20 40 "''100000''" AxiosError
      "[\<lparr>resource_name = ''pikachu'', url = ''pokemon/25/''\<rparr>,
        \<lparr>resource_name = ''gone'', url = ''pokemon/404/''\<rparr>]"
      "\<lparr>resource_name = ''gone'', url = ''pokemon/404/''\<rparr>"]
    a b c d e
  show ?thesis
    by simp
qed

text \<open>
  C10. If any single item of a fetched listing page yields a detail object with no stat
  entry named ``attack'' or with an empty types collection, \<^verbatim>\<open>getCharacters\<close> resolves
  to the empty sequence for the whole page: the field access of that item throws inside
  the one \<^verbatim>\<open>try\<close> block, so one malformed item discards every well-formed item of the
  page.
\<close>

theorem malformed_item_discards_page:
  assumes "net (PokemonPage limit offset) = Inr (Listing results)"
    and "item \<in> set results"
    and "net (Url (url item)) = Inr (Detail p)"
    and "find (\<lambda>stat. stat_name stat = ''attack'') (stats p) = None \<or> types p = []"
  shows "getCharacters net limit offset = Inr []"
proof (cases "mapM (\<lambda>pokemon. net (Url (url pokemon))) results")
  case (Inl e)
  with assms(1) show ?thesis
    by (simp add: getCharacters_def getCharactersTry_def)
next
  case (Inr detailedPokemons)
  from mapM_Inr_mem [OF Inr assms(2)] assms(3) have "Detail p \<in> set detailedPokemons"
    by auto
  from mapM_Inl [where f = formatPokemon, OF this formatPokemon_malformed [OF assms(4)]]
  obtain e where "mapM formatPokemon detailedPokemons = Inl e"
    by blast
  with assms(1) Inr show ?thesis
    by (simp add: getCharacters_def getCharactersTry_def)
qed

theorem malformed_item_discards_page_witness:
  "exampleNet (PokemonPage 20 0) =
     Inr (Listing [\<lparr>resource_name = ''pikachu'', url = ''pokemon/25/''\<rparr>,
                   \<lparr>resource_name = ''missingno'', url = ''pokemon/0/''\<rparr>])
   \<and> exampleNet (Url ''pokemon/0/'') = Inr (Detail typelessDetail)
   \<and> types typelessDetail = []
   \<and> formatPokemon (Detail pikachuDetail) = Inr pikachu
   \<and> getCharacters exampleNet 20 0 = Inr []"
proof -
  have page: "exampleNet (PokemonPage 20 0) =
      Inr (Listing [\<lparr>resource_name = ''pikachu'', url = ''pokemon/25/''\<rparr>,
                    \<lparr>resource_name = ''missingno'', url = ''pokemon/0/''\<rparr>])"
    by (simp add: exampleNet_def)
  have item: "\<lparr>resource_name = ''missingno'', url = ''pokemon/0/''\<rparr> \<in>
      set [\<lparr>resource_name = ''pikachu'', url = ''pokemon/25/''\<rparr>,
           \<lparr>resource_name = ''missingno'', url = ''pokemon/0/''\<rparr>]"
    by simp
  have detail: "exampleNet (Url (url \<lparr>resource_name = ''missingno'', url = ''pokemon/0/''\<rparr>)) =
      Inr (Detail typelessDetail)"
    by (simp add: exampleNet_def)
  have bad: "find (\<lambda>stat. stat_name stat = ''attack'') (stats typelessDetail) = None
      \<or> types typelessDetail = []"
    by (simp add: typelessDetail_def)
  have good: "formatPokemon (Detail pikachuDetail) = Inr pikachu"
    by (simp add: formatPokemon_def pikachuDetail_def pikachu_def)
  from malformed_item_discards_page [OF page item detail bad] page detail good
  show ?thesis
    by (simp add: typelessDetail_def)
qed

end
